theory Spec2Isabelle
  imports Main "HOL-Library.Char_ord" "HOL-Library.List_Lexorder"
begin

section \<open>Result codes and constants\<close>

text \<open>
  The result codes are those of \<^verbatim>\<open>sqlite3.h\<close>; \<open>SQL_QUERY_MAX_LIMIT\<close> is the macro of
  \<^verbatim>\<open>include/db.h\<close>. C \<^verbatim>\<open>int\<close> values are modelled as \<open>int\<close>: the only place where the
  range of \<^verbatim>\<open>int\<close> matters is the return value of \<^verbatim>\<open>snprintf\<close>, written out below.
\<close>

definition SQLITE_OK :: int where "SQLITE_OK = 0"
definition SQLITE_ERROR :: int where "SQLITE_ERROR = 1"
definition SQLITE_NOMEM :: int where "SQLITE_NOMEM = 7"
definition SQLITE_CANTOPEN :: int where "SQLITE_CANTOPEN = 14"
definition SQLITE_MISUSE :: int where "SQLITE_MISUSE = 21"
definition SQLITE_ROW :: int where "SQLITE_ROW = 100"
definition SQLITE_DONE :: int where "SQLITE_DONE = 101"

definition SQL_QUERY_MAX_LIMIT :: int where "SQL_QUERY_MAX_LIMIT = 100"

definition INT_MAX :: int where "INT_MAX = 2147483647"

section \<open>The application context\<close>

text \<open>
  A pointer that the code tests against \<^verbatim>\<open>NULL\<close> is an \<open>option\<close>. A C string is a
  \<open>string\<close> (the bytes before the terminating NUL), a \<^verbatim>\<open>const char *\<close> a \<open>string option\<close>.
  The array \<^verbatim>\<open>char **current_colnames\<close> is the list of its allocated entries, each of them
  a possibly null string. A \<^verbatim>\<open>GtkListStore\<close> is the list of its rows, and the rows view is
  the list of its column titles together with its model.
\<close>

type_synonym cstr = "string option"
type_synonym stmt_ptr = "nat option"

record tree_view =
  tv_columns :: "string list"
  tv_model :: "string list list option"

record context_td =
  db :: "nat option"
  win :: "nat option"
  tables_view :: "nat option"
  rows_view :: "tree_view option"
  tables_store :: "cstr list option"
  current_ncols :: int
  current_colnames :: "cstr list option"
  current_tablename :: cstr

text \<open>
  Reading an array outside its allocation is undefined behaviour in C; a run that does so
  has no return value.
\<close>

datatype 'a outcome = Returns 'a | Undefined_Behaviour

section \<open>The storage engine and the allocator\<close>

text \<open>
  SQLite is an external library. Its calls are parameters of the model: an engine is a
  record of operations on an engine state \<open>'e\<close> (the open connections, the statements and
  the stored data). \<open>sqlite3_open\<close> returns the result code and the handle it wrote to
  \<^verbatim>\<open>*ppDb\<close>; \<open>sqlite3_prepare_v2\<close> the result code and the statement it wrote to
  \<^verbatim>\<open>*ppStmt\<close>.
\<close>

record 'e engine =
  sqlite3_open :: "cstr \<Rightarrow> 'e \<Rightarrow> (int \<times> nat option) \<times> 'e"
  sqlite3_close :: "nat \<Rightarrow> 'e \<Rightarrow> 'e"
  sqlite3_prepare_v2 :: "nat \<Rightarrow> string \<Rightarrow> 'e \<Rightarrow> (int \<times> stmt_ptr) \<times> 'e"
  sqlite3_column_count :: "stmt_ptr \<Rightarrow> 'e \<Rightarrow> int"
  sqlite3_column_name :: "stmt_ptr \<Rightarrow> int \<Rightarrow> 'e \<Rightarrow> cstr"
  sqlite3_step :: "stmt_ptr \<Rightarrow> 'e \<Rightarrow> int \<times> 'e"
  sqlite3_column_text :: "stmt_ptr \<Rightarrow> int \<Rightarrow> 'e \<Rightarrow> cstr"
  sqlite3_bind_text :: "stmt_ptr \<Rightarrow> int \<Rightarrow> cstr \<Rightarrow> 'e \<Rightarrow> 'e"
  sqlite3_finalize :: "stmt_ptr \<Rightarrow> 'e \<Rightarrow> 'e"

text \<open>
  The world outside the context: the engine state, the answers of the allocator to the
  coming requests of \<^verbatim>\<open>malloc\<close>, \<^verbatim>\<open>calloc\<close> and \<^verbatim>\<open>strdup\<close> (\<open>False\<close> is a failed
  allocation; once the list is used up every request succeeds), and the log of the calls
  made to the engine that change its state, with their arguments. The log is ghost state:
  it is how a statement about what reaches the engine is written.
\<close>

datatype call =
    Open cstr
  | Close nat
  | Prepare nat string
  | Bind_text stmt_ptr int cstr
  | Step stmt_ptr
  | Finalize stmt_ptr

record 'e world =
  eng :: 'e
  heap :: "bool list"
  calls :: "call list"

definition alloc :: "'e world \<Rightarrow> bool \<times> 'e world" where
  "alloc w = (case heap w of [] \<Rightarrow> (True, w) | b # bs \<Rightarrow> (b, w\<lparr>heap := bs\<rparr>))"

definition strdup :: "string \<Rightarrow> 'e world \<Rightarrow> cstr \<times> 'e world" where
  "strdup x w = (case alloc w of (ok, w1) \<Rightarrow> (if ok then Some x else None, w1))"

definition call_open :: "'e engine \<Rightarrow> cstr \<Rightarrow> 'e world \<Rightarrow> (int \<times> nat option) \<times> 'e world" where
  "call_open E filename w =
     (case sqlite3_open E filename (eng w) of
        (r, e1) \<Rightarrow> (r, w\<lparr>eng := e1, calls := calls w @ [Open filename]\<rparr>))"

definition call_close :: "'e engine \<Rightarrow> nat \<Rightarrow> 'e world \<Rightarrow> 'e world" where
  "call_close E h w = w\<lparr>eng := sqlite3_close E h (eng w), calls := calls w @ [Close h]\<rparr>"

definition call_prepare :: "'e engine \<Rightarrow> nat \<Rightarrow> string \<Rightarrow> 'e world \<Rightarrow> (int \<times> stmt_ptr) \<times> 'e world" where
  "call_prepare E h sql w =
     (case sqlite3_prepare_v2 E h sql (eng w) of
        (r, e1) \<Rightarrow> (r, w\<lparr>eng := e1, calls := calls w @ [Prepare h sql]\<rparr>))"

definition call_bind_text :: "'e engine \<Rightarrow> stmt_ptr \<Rightarrow> int \<Rightarrow> cstr \<Rightarrow> 'e world \<Rightarrow> 'e world" where
  "call_bind_text E stmt i txt w =
     w\<lparr>eng := sqlite3_bind_text E stmt i txt (eng w), calls := calls w @ [Bind_text stmt i txt]\<rparr>"

definition call_step :: "'e engine \<Rightarrow> stmt_ptr \<Rightarrow> 'e world \<Rightarrow> int \<times> 'e world" where
  "call_step E stmt w =
     (case sqlite3_step E stmt (eng w) of
        (rc, e1) \<Rightarrow> (rc, w\<lparr>eng := e1, calls := calls w @ [Step stmt]\<rparr>))"

definition call_finalize :: "'e engine \<Rightarrow> stmt_ptr \<Rightarrow> 'e world \<Rightarrow> 'e world" where
  "call_finalize E stmt w =
     w\<lparr>eng := sqlite3_finalize E stmt (eng w), calls := calls w @ [Finalize stmt]\<rparr>"

section \<open>Formatting\<close>

text \<open>
  \<^verbatim>\<open>%d\<close> prints a decimal numeral. \<^verbatim>\<open>snprintf\<close> returns the length of the whole formatted
  text, or a negative value when that length does not fit an \<^verbatim>\<open>int\<close>.
\<close>

function dec :: "nat \<Rightarrow> string" where
  "dec n = (if n < 10 then [''0123456789'' ! n]
            else dec (n div 10) @ [''0123456789'' ! (n mod 10)])"
  by pat_completeness auto
termination
  by (relation "measure id") auto

declare dec.simps [simp del]

definition fmt_d :: "int \<Rightarrow> string" where
  "fmt_d i = (if i < 0 then CHR ''-'' # dec (nat (- i)) else dec (nat i))"

definition snprintf_ret :: "string \<Rightarrow> int" where
  "snprintf_ret text = (if INT_MAX < int (length text) then - 1 else int (length text))"

definition select_rowid_all_fmt :: "string \<Rightarrow> string" where
  \<open>select_rowid_all_fmt table =
     ''SELECT rowid, * FROM "'' @ table @ ''" LIMIT '' @ fmt_d SQL_QUERY_MAX_LIMIT @ '';''\<close>

definition update_fmt :: "string \<Rightarrow> string \<Rightarrow> string" where
  \<open>update_fmt tablename colname =
     ''UPDATE "'' @ tablename @ ''" SET "'' @ colname @ ''" = ? WHERE rowid = ?;''\<close>

definition list_tables_sql :: string where
  \<open>list_tables_sql =
     ''SELECT name FROM sqlite_master WHERE type='' @ [CHR 0x27] @ ''table'' @ [CHR 0x27] @
     '' AND name NOT LIKE '' @ [CHR 0x27] @ ''sqlite_%'' @ [CHR 0x27] @ '' ORDER BY name;''\<close>

section \<open>The functions of db.c\<close>

definition s_make_select_rowid_all :: "string \<Rightarrow> 'e world \<Rightarrow> cstr \<times> 'e world" where
  "s_make_select_rowid_all table w =
     (let needed = snprintf_ret (select_rowid_all_fmt table) in
      if needed < 0 then (None, w)
      else if 256 \<le> needed
      then (case alloc w of
              (ok, w1) \<Rightarrow> (if ok then Some (select_rowid_all_fmt table) else None, w1))
      else strdup (select_rowid_all_fmt table) w)"

definition db_open ::
  "'e engine \<Rightarrow> context_td option \<Rightarrow> cstr \<Rightarrow> 'e world \<Rightarrow> int \<times> context_td option \<times> 'e world" where
  "db_open E s filename w =
     (case s of
        None \<Rightarrow> (SQLITE_MISUSE, None, w)
      | Some c \<Rightarrow>
          (case (case db c of
                   None \<Rightarrow> (c, w)
                 | Some h \<Rightarrow> (c\<lparr>db := None\<rparr>, call_close E h w)) of
             (c1, w1) \<Rightarrow>
               (case call_open E filename w1 of
                  ((rc, h1), w2) \<Rightarrow> (rc, Some (c1\<lparr>db := h1\<rparr>), w2))))"

definition db_close :: "'e engine \<Rightarrow> context_td option \<Rightarrow> 'e world \<Rightarrow> context_td option \<times> 'e world" where
  "db_close E s w =
     (case s of
        None \<Rightarrow> (None, w)
      | Some c \<Rightarrow>
          (case db c of
             None \<Rightarrow> (Some c, w)
           | Some h \<Rightarrow> (Some (c\<lparr>db := None\<rparr>), call_close E h w)))"

text \<open>
  The loop of \<open>db_fill_table_list\<close>: it runs as long as the engine answers \<open>SQLITE_ROW\<close>,
  so it returns only if the engine eventually answers something else; \<open>None\<close> is a run
  that does not return.
\<close>

partial_function (option) fill_table_list_loop ::
  "'e engine \<Rightarrow> stmt_ptr \<Rightarrow> cstr list \<Rightarrow> 'e world \<Rightarrow> (cstr list \<times> 'e world) option" where
  "fill_table_list_loop E stmt store w =
     (case call_step E stmt w of
        (rc, w1) \<Rightarrow>
          if rc = SQLITE_ROW
          then fill_table_list_loop E stmt (store @ [sqlite3_column_text E stmt 0 (eng w1)]) w1
          else Some (store, w1))"

definition db_fill_table_list ::
  "'e engine \<Rightarrow> context_td option \<Rightarrow> 'e world \<Rightarrow> (int \<times> context_td option \<times> 'e world) option" where
  "db_fill_table_list E s w =
     (case s of
        None \<Rightarrow> Some (SQLITE_MISUSE, None, w)
      | Some c \<Rightarrow>
          (case db c of
             None \<Rightarrow> Some (SQLITE_MISUSE, Some c, w)
           | Some h \<Rightarrow>
               (case tables_store c of
                  None \<Rightarrow> Some (SQLITE_MISUSE, Some c, w)
                | Some old \<Rightarrow>
                    (case call_prepare E h list_tables_sql w of
                       ((rc, stmt), w1) \<Rightarrow>
                         if rc = SQLITE_OK
                         then (case fill_table_list_loop E stmt [] w1 of
                                 None \<Rightarrow> None
                               | Some (store, w2) \<Rightarrow>
                                   Some (SQLITE_OK, Some (c\<lparr>tables_store := Some store\<rparr>),
                                         call_finalize E stmt w2))
                         else Some (rc, Some c, w1)))))"

text \<open>
  \<open>db_free_columns\<close> on a context that is not null. The loop frees the entries below
  \<open>current_ncols\<close>: it reads outside the array when the count exceeds the allocated
  length.
\<close>

definition free_columns :: "context_td \<Rightarrow> context_td outcome" where
  "free_columns c =
     (case current_colnames c of
        None \<Rightarrow> Returns (c\<lparr>current_tablename := None, current_ncols := 0\<rparr>)
      | Some names \<Rightarrow>
          if int (length names) < current_ncols c then Undefined_Behaviour
          else Returns (c\<lparr>current_colnames := None, current_ncols := 0,
                           current_tablename := None\<rparr>))"

definition db_free_columns :: "context_td option \<Rightarrow> context_td option outcome" where
  "db_free_columns s =
     (case s of
        None \<Rightarrow> Returns None
      | Some c \<Rightarrow>
          (case free_columns c of
             Undefined_Behaviour \<Rightarrow> Undefined_Behaviour
           | Returns c1 \<Rightarrow> Returns (Some c1)))"

text \<open>
  The loop of \<open>db_populate_rows\<close> that creates the columns: for each index below the
  column count, the name the engine reports (the empty string if it reports none) is
  copied into \<open>current_colnames\<close> and is the title of a new column of the view.
\<close>

primrec make_columns ::
  "'e engine \<Rightarrow> stmt_ptr \<Rightarrow> nat list \<Rightarrow> 'e world \<Rightarrow> (cstr list \<times> string list) \<times> 'e world" where
  "make_columns E stmt [] w = (([], []), w)"
| "make_columns E stmt (i # rest) w =
     (let title = (case sqlite3_column_name E stmt (int i) (eng w) of
                     None \<Rightarrow> []
                   | Some colname \<Rightarrow> colname) in
      case strdup title w of
        (copy, w1) \<Rightarrow>
          (case make_columns E stmt rest w1 of
             ((names, titles), w2) \<Rightarrow> ((copy # names, title # titles), w2)))"

text \<open>One row of the store: the text of each column, the empty string for a null.\<close>

definition read_row :: "'e engine \<Rightarrow> stmt_ptr \<Rightarrow> int \<Rightarrow> 'e \<Rightarrow> string list" where
  "read_row E stmt ncol e =
     map (\<lambda>i. case sqlite3_column_text E stmt (int i) e of None \<Rightarrow> [] | Some txt \<Rightarrow> txt)
       [0..<nat ncol]"

partial_function (option) populate_rows_loop ::
  "'e engine \<Rightarrow> stmt_ptr \<Rightarrow> int \<Rightarrow> string list list \<Rightarrow> 'e world \<Rightarrow>
     (string list list \<times> 'e world) option" where
  "populate_rows_loop E stmt ncol store w =
     (case call_step E stmt w of
        (rc, w1) \<Rightarrow>
          if rc = SQLITE_ROW
          then populate_rows_loop E stmt ncol (store @ [read_row E stmt ncol (eng w1)]) w1
          else Some (store, w1))"

text \<open>
  \<open>calloc((size_t) ncol, sizeof(char*))\<close>: a negative count converts to a size whose
  product with the element size overflows, and the request fails; otherwise the allocator
  decides.
\<close>

definition calloc_colnames :: "int \<Rightarrow> 'e world \<Rightarrow> cstr list option \<times> 'e world" where
  "calloc_colnames ncol w =
     (case alloc w of
        (ok, w1) \<Rightarrow>
          (if ncol < 0 then None
           else if ok then Some (replicate (nat ncol) None)
           else None, w1))"

text \<open>
  \<open>db_populate_rows\<close> from the point where the statement is prepared (lines 206 to 250):
  \<open>stmt\<close> is the prepared statement, \<open>c2\<close> the context after the reset of the view.
\<close>

definition populate_prepared ::
  "'e engine \<Rightarrow> stmt_ptr \<Rightarrow> context_td \<Rightarrow> 'e world \<Rightarrow>
     (int \<times> context_td option \<times> 'e world) outcome option" where
  "populate_prepared E stmt c2 w3 =
     (let ncol = sqlite3_column_count E stmt (eng w3) in
      case calloc_colnames ncol w3 of
        (None, w4) \<Rightarrow>
          Some (Returns (SQLITE_NOMEM,
                         Some (c2\<lparr>current_ncols := ncol, current_colnames := None\<rparr>),
                         call_finalize E stmt w4))
      | (Some zeroed, w4) \<Rightarrow>
          (case make_columns E stmt [0..<nat ncol] w4 of
             ((names, titles), w5) \<Rightarrow>
               (case populate_rows_loop E stmt ncol [] w5 of
                  None \<Rightarrow> None
                | Some (store, w6) \<Rightarrow>
                    Some (Returns (SQLITE_OK,
                                   Some (c2\<lparr>current_ncols := ncol,
                                            current_colnames := Some names,
                                            rows_view := Some \<lparr>tv_columns = titles,
                                                                tv_model = Some store\<rparr>\<rparr>),
                                   call_finalize E stmt w6)))))"

text \<open>
  \<open>db_populate_rows\<close> after its precondition checks (lines 180 to 204): \<open>h\<close> is the open
  handle and \<open>t\<close> the table name.
\<close>

definition populate_checked ::
  "'e engine \<Rightarrow> nat \<Rightarrow> context_td \<Rightarrow> string \<Rightarrow> 'e world \<Rightarrow>
     (int \<times> context_td option \<times> 'e world) outcome option" where
  "populate_checked E h c t w =
     (case free_columns c of
        Undefined_Behaviour \<Rightarrow> Some Undefined_Behaviour
      | Returns c1 \<Rightarrow>
          (case strdup t w of
             (tname, w1) \<Rightarrow>
               (let c2 = c1\<lparr>current_tablename := tname,
                             rows_view := Some \<lparr>tv_columns = [], tv_model = None\<rparr>\<rparr> in
                case s_make_select_rowid_all t w1 of
                  (None, w2) \<Rightarrow> Some (Returns (SQLITE_NOMEM, Some c2, w2))
                | (Some sql, w2) \<Rightarrow>
                    (case call_prepare E h sql w2 of
                       ((rc, stmt), w3) \<Rightarrow>
                         if rc = SQLITE_OK then populate_prepared E stmt c2 w3
                         else Some (Returns (rc, Some c2, w3))))))"

definition db_populate_rows ::
  "'e engine \<Rightarrow> context_td option \<Rightarrow> cstr \<Rightarrow> 'e world \<Rightarrow>
     (int \<times> context_td option \<times> 'e world) outcome option" where
  "db_populate_rows E s table w =
     (case s of
        None \<Rightarrow> Some (Returns (SQLITE_MISUSE, None, w))
      | Some c \<Rightarrow>
          (case db c of
             None \<Rightarrow> Some (Returns (SQLITE_MISUSE, Some c, w))
           | Some h \<Rightarrow>
               (case rows_view c of
                  None \<Rightarrow> Some (Returns (SQLITE_MISUSE, Some c, w))
                | Some tv \<Rightarrow>
                    (case table of
                       None \<Rightarrow> Some (Returns (SQLITE_MISUSE, Some c, w))
                     | Some t \<Rightarrow> populate_checked E h c t w))))"

text \<open>
  \<open>db_apply_update_cell\<close> from the point where the column name is known (lines 270 to
  311). The statement text fits the buffer of 512 bytes, or is formatted again into an
  allocation of its length.
\<close>

definition update_named ::
  "'e engine \<Rightarrow> nat \<Rightarrow> context_td \<Rightarrow> string \<Rightarrow> string \<Rightarrow> cstr \<Rightarrow> cstr \<Rightarrow> 'e world \<Rightarrow>
     (int \<times> context_td option \<times> 'e world) outcome" where
  "update_named E h c tablename colname rowid_text new_text w =
     (let needed = snprintf_ret (update_fmt tablename colname) in
      if needed < 0 then Returns (SQLITE_ERROR, Some c, w)
      else
        (case (if 512 \<le> needed then alloc w else (True, w)) of
           (ok, w1) \<Rightarrow>
             if ok
             then
               (case call_prepare E h (update_fmt tablename colname) w1 of
                  ((rc, stmt), w2) \<Rightarrow>
                    if rc = SQLITE_OK
                    then
                      (let w3 = call_bind_text E stmt 1 new_text w2;
                           w4 = call_bind_text E stmt 2 rowid_text w3 in
                       case call_step E stmt w4 of
                         (rc1, w5) \<Rightarrow>
                           if rc1 = SQLITE_DONE
                           then Returns (SQLITE_OK, Some c, call_finalize E stmt w5)
                           else Returns (rc1, Some c, call_finalize E stmt w5))
                    else
                      (case stmt of
                         None \<Rightarrow> Returns (rc, Some c, w2)
                       | Some p \<Rightarrow> Returns (rc, Some c, call_finalize E stmt w2)))
             else Returns (SQLITE_NOMEM, Some c, w1)))"

text \<open>
  The read \<^verbatim>\<open>s->current_colnames[colidx]\<close> has no bounds check: outside the allocated
  array it is undefined behaviour.
\<close>

definition db_apply_update_cell ::
  "'e engine \<Rightarrow> context_td option \<Rightarrow> int \<Rightarrow> cstr \<Rightarrow> cstr \<Rightarrow> 'e world \<Rightarrow>
     (int \<times> context_td option \<times> 'e world) outcome" where
  "db_apply_update_cell E s colidx rowid_text new_text w =
     (case s of
        None \<Rightarrow> Returns (SQLITE_MISUSE, None, w)
      | Some c \<Rightarrow>
          (case db c of
             None \<Rightarrow> Returns (SQLITE_MISUSE, Some c, w)
           | Some h \<Rightarrow>
               (case current_tablename c of
                  None \<Rightarrow> Returns (SQLITE_MISUSE, Some c, w)
                | Some tablename \<Rightarrow>
                    (case current_colnames c of
                       None \<Rightarrow> Returns (SQLITE_MISUSE, Some c, w)
                     | Some names \<Rightarrow>
                         if colidx = 0 then Returns (SQLITE_OK, Some c, w)
                         else if colidx < 0 then Undefined_Behaviour
                         else if int (length names) \<le> colidx then Undefined_Behaviour
                         else
                           (case names ! nat colidx of
                              None \<Rightarrow> Returns (SQLITE_MISUSE, Some c, w)
                            | Some colname \<Rightarrow>
                                update_named E h c tablename colname rowid_text new_text w)))))"

section \<open>A model of the engine\<close>

text \<open>
  The theorems about the functions of \<^verbatim>\<open>db.c\<close> hold for every engine. Where a statement
  is about what the engine answers (which paths open, what a statement of the program
  selects), it is evaluated on the model below, which follows the documented behaviour of
  SQLite for what the program asks of it:
  \<^item> \<^verbatim>\<open>sqlite3_open\<close> opens a database for reading and writing and creates it if it does
    not exist; when it fails (here: a path that can be neither opened nor created) it
    still returns a handle, which the caller is to close;
  \<^item> the catalog query of \<open>db_fill_table_list\<close>, read as SQL: the names of the rows of
    \<^verbatim>\<open>sqlite_master\<close> of type \<^verbatim>\<open>table\<close> whose name does not match the \<^verbatim>\<open>LIKE\<close> pattern,
    in ascending byte order;
  \<^item> a statement of the shape built by \<open>s_make_select_rowid_all\<close>: the text up to the
    first semicolon that follows the quoted name and the limit is compiled, the rest of
    the text is ignored, and at most that many rows of the named table are returned;
  \<^item> a statement of the shape built by \<open>db_apply_update_cell\<close>: the first bound text is
    stored in the named column of the rows whose row identity, printed in decimal, is the
    second bound text.
  Every other statement is rejected with \<open>SQLITE_ERROR\<close>. Names of tables and columns are
  compared without regard to ASCII case, as SQLite does. A file maps to its schema
  objects; each table carries its column names and its rows with their row identities.
\<close>

record sim_object =
  obj_type :: string
  obj_name :: string
  obj_cols :: "string list"
  obj_rows :: "(int \<times> cstr list) list"

record sim_cursor =
  cur_names :: "string list"
  cur_pending :: "cstr list list"
  cur_row :: "cstr list"

record sim_update =
  upd_path :: string
  upd_table :: string
  upd_col :: nat
  upd_bound :: "(int \<times> cstr) list"

datatype sim_statement = Query sim_cursor | Update sim_update

record sim =
  sim_files :: "(string \<times> sim_object list) list"
  sim_blocked :: "string list"
  sim_conns :: "(nat \<times> string option) list"
  sim_stmt :: "sim_statement option"
  sim_next :: nat

definition ascii_lower :: "char \<Rightarrow> char" where
  "ascii_lower c =
     (if CHR ''A'' \<le> c \<and> c \<le> CHR ''Z'' then char_of (of_char c + (32 :: nat)) else c)"

text \<open>
  \<^verbatim>\<open>LIKE\<close>: \<^verbatim>\<open>%\<close> matches any sequence of characters, \<^verbatim>\<open>_\<close> matches any single
  character, every other character matches itself without regard to ASCII case. The first
  argument is the pattern.
\<close>

fun sql_like :: "string \<Rightarrow> string \<Rightarrow> bool" where
  "sql_like [] [] = True"
| "sql_like [] (c # cs) = False"
| "sql_like (p # ps) [] = (p = CHR ''%'' \<and> sql_like ps [])"
| "sql_like (p # ps) (c # cs) =
     (if p = CHR ''%'' then sql_like ps (c # cs) \<or> sql_like (p # ps) cs
      else if p = CHR ''_'' then sql_like ps cs
      else ascii_lower p = ascii_lower c \<and> sql_like ps cs)"

definition master_query :: "sim_object list \<Rightarrow> string list" where
  "master_query schema =
     sort (map obj_name
       (filter (\<lambda>ob. obj_type ob = ''table'' \<and> \<not> sql_like ''sqlite_%'' (obj_name ob)) schema))"

definition strip_prefix :: "string \<Rightarrow> string \<Rightarrow> string option" where
  "strip_prefix p text = (if take (length p) text = p then Some (drop (length p) text) else None)"

definition is_digit :: "char \<Rightarrow> bool" where
  "is_digit c = (CHR ''0'' \<le> c \<and> c \<le> CHR ''9'')"

definition digits_value :: "string \<Rightarrow> nat" where
  "digits_value ds = foldl (\<lambda>a c. 10 * a + (of_char c - 48)) 0 ds"

definition quoted_name :: "string \<Rightarrow> string" where
  "quoted_name text = takeWhile (\<lambda>c. c \<noteq> CHR 0x22) text"

definition after_name :: "string \<Rightarrow> string" where
  "after_name text = dropWhile (\<lambda>c. c \<noteq> CHR 0x22) text"

definition parse_select :: "string \<Rightarrow> (string \<times> nat) option" where
  \<open>parse_select sql =
     (case strip_prefix ''SELECT rowid, * FROM "'' sql of
        None \<Rightarrow> None
      | Some r1 \<Rightarrow>
          (case strip_prefix ''" LIMIT '' (after_name r1) of
             None \<Rightarrow> None
           | Some r2 \<Rightarrow>
               (case (takeWhile is_digit r2, dropWhile is_digit r2) of
                  ([], rest) \<Rightarrow> None
                | (d # ds, []) \<Rightarrow> Some (quoted_name r1, digits_value (d # ds))
                | (d # ds, semi # rest) \<Rightarrow>
                    if semi = CHR '';'' then Some (quoted_name r1, digits_value (d # ds))
                    else None)))\<close>

definition parse_update :: "string \<Rightarrow> (string \<times> string) option" where
  \<open>parse_update sql =
     (case strip_prefix ''UPDATE "'' sql of
        None \<Rightarrow> None
      | Some r1 \<Rightarrow>
          (case strip_prefix ''" SET "'' (after_name r1) of
             None \<Rightarrow> None
           | Some r2 \<Rightarrow>
               (case strip_prefix ''" = ? WHERE rowid = ?'' (after_name r2) of
                  None \<Rightarrow> None
                | Some [] \<Rightarrow> Some (quoted_name r1, quoted_name r2)
                | Some (semi # rest) \<Rightarrow>
                    if semi = CHR '';'' then Some (quoted_name r1, quoted_name r2)
                    else None)))\<close>

definition same_name :: "string \<Rightarrow> string \<Rightarrow> bool" where
  "same_name a b = (map ascii_lower a = map ascii_lower b)"

definition find_table :: "sim_object list \<Rightarrow> string \<Rightarrow> sim_object option" where
  "find_table schema t =
     (case filter (\<lambda>ob. obj_type ob = ''table'' \<and> same_name (obj_name ob) t) schema of
        [] \<Rightarrow> None
      | ob # others \<Rightarrow> Some ob)"

primrec column_position :: "string list \<Rightarrow> string \<Rightarrow> nat option" where
  "column_position [] col = None"
| "column_position (x # xs) col =
     (if same_name x col then Some 0 else map_option Suc (column_position xs col))"

definition select_rows :: "sim_object \<Rightarrow> nat \<Rightarrow> sim_cursor" where
  "select_rows ob n =
     \<lparr>cur_names = ''rowid'' # obj_cols ob,
      cur_pending = take n (map (\<lambda>r. Some (fmt_d (fst r)) # snd r) (obj_rows ob)),
      cur_row = []\<rparr>"

definition sim_compile :: "string \<Rightarrow> sim_object list \<Rightarrow> string \<Rightarrow> sim_statement option" where
  "sim_compile path schema sql =
     (if sql = list_tables_sql
      then Some (Query \<lparr>cur_names = [''name''],
                        cur_pending = map (\<lambda>n. [Some n]) (master_query schema),
                        cur_row = []\<rparr>)
      else
        (case parse_select sql of
           Some (t, n) \<Rightarrow>
             (case find_table schema t of
                None \<Rightarrow> None
              | Some ob \<Rightarrow> Some (Query (select_rows ob n)))
         | None \<Rightarrow>
             (case parse_update sql of
                None \<Rightarrow> None
              | Some (t, col) \<Rightarrow>
                  (case find_table schema t of
                     None \<Rightarrow> None
                   | Some ob \<Rightarrow>
                       (case column_position (obj_cols ob) col of
                          None \<Rightarrow> None
                        | Some k \<Rightarrow>
                            Some (Update \<lparr>upd_path = path, upd_table = t, upd_col = k,
                                          upd_bound = []\<rparr>))))))"

definition update_row :: "sim_update \<Rightarrow> int \<times> cstr list \<Rightarrow> int \<times> cstr list" where
  "update_row u r =
     (if map_of (upd_bound u) 2 = Some (Some (fmt_d (fst r)))
      then (fst r, (snd r)[upd_col u := (case map_of (upd_bound u) 1 of
                                          None \<Rightarrow> None
                                        | Some txt \<Rightarrow> txt)])
      else r)"

definition update_object :: "sim_update \<Rightarrow> sim_object \<Rightarrow> sim_object" where
  "update_object u ob =
     (if obj_type ob = ''table'' \<and> same_name (obj_name ob) (upd_table u)
      then ob\<lparr>obj_rows := map (update_row u) (obj_rows ob)\<rparr>
      else ob)"

definition run_update ::
  "sim_update \<Rightarrow> (string \<times> sim_object list) list \<Rightarrow> (string \<times> sim_object list) list" where
  "run_update u files =
     map (\<lambda>f. if fst f = upd_path u then (fst f, map (update_object u) (snd f)) else f) files"

definition sim_open :: "cstr \<Rightarrow> sim \<Rightarrow> (int \<times> nat option) \<times> sim" where
  "sim_open filename e =
     (let path = (case filename of None \<Rightarrow> [] | Some p \<Rightarrow> p); h = sim_next e in
      if path \<in> set (sim_blocked e)
      then ((SQLITE_CANTOPEN, Some h),
            e\<lparr>sim_conns := (h, None) # sim_conns e, sim_next := Suc h\<rparr>)
      else ((SQLITE_OK, Some h),
            e\<lparr>sim_files := (if path \<in> set (map fst (sim_files e)) then sim_files e
                             else (path, []) # sim_files e),
              sim_conns := (h, Some path) # sim_conns e, sim_next := Suc h\<rparr>))"

definition sim_close :: "nat \<Rightarrow> sim \<Rightarrow> sim" where
  "sim_close h e = e\<lparr>sim_conns := filter (\<lambda>p. fst p \<noteq> h) (sim_conns e)\<rparr>"

definition sim_prepare :: "nat \<Rightarrow> string \<Rightarrow> sim \<Rightarrow> (int \<times> stmt_ptr) \<times> sim" where
  "sim_prepare h sql e =
     (case map_of (sim_conns e) h of
        None \<Rightarrow> ((SQLITE_MISUSE, None), e)
      | Some None \<Rightarrow> ((SQLITE_MISUSE, None), e)
      | Some (Some path) \<Rightarrow>
          (case map_of (sim_files e) path of
             None \<Rightarrow> ((SQLITE_CANTOPEN, None), e)
           | Some schema \<Rightarrow>
               (case sim_compile path schema sql of
                  None \<Rightarrow> ((SQLITE_ERROR, None), e)
                | Some st \<Rightarrow>
                    ((SQLITE_OK, Some (sim_next e)),
                     e\<lparr>sim_stmt := Some st, sim_next := Suc (sim_next e)\<rparr>))))"

definition sim_bind_text :: "stmt_ptr \<Rightarrow> int \<Rightarrow> cstr \<Rightarrow> sim \<Rightarrow> sim" where
  "sim_bind_text stmt i txt e =
     (case stmt of
        None \<Rightarrow> e
      | Some k \<Rightarrow>
          (case sim_stmt e of
             None \<Rightarrow> e
           | Some (Query cur) \<Rightarrow> e
           | Some (Update u) \<Rightarrow>
               e\<lparr>sim_stmt := Some (Update (u\<lparr>upd_bound := (i, txt) # upd_bound u\<rparr>))\<rparr>))"

definition sim_step :: "stmt_ptr \<Rightarrow> sim \<Rightarrow> int \<times> sim" where
  "sim_step stmt e =
     (case stmt of
        None \<Rightarrow> (SQLITE_MISUSE, e)
      | Some k \<Rightarrow>
          (case sim_stmt e of
             None \<Rightarrow> (SQLITE_MISUSE, e)
           | Some (Query cur) \<Rightarrow>
               (case cur_pending cur of
                  [] \<Rightarrow> (SQLITE_DONE, e)
                | r # rs \<Rightarrow>
                    (SQLITE_ROW,
                     e\<lparr>sim_stmt := Some (Query (cur\<lparr>cur_pending := rs, cur_row := r\<rparr>))\<rparr>))
           | Some (Update u) \<Rightarrow>
               (SQLITE_DONE, e\<lparr>sim_files := run_update u (sim_files e)\<rparr>)))"

definition sim_column_count :: "stmt_ptr \<Rightarrow> sim \<Rightarrow> int" where
  "sim_column_count stmt e =
     (case stmt of
        None \<Rightarrow> 0
      | Some k \<Rightarrow>
          (case sim_stmt e of
             None \<Rightarrow> 0
           | Some (Query cur) \<Rightarrow> int (length (cur_names cur))
           | Some (Update u) \<Rightarrow> 0))"

definition sim_column_name :: "stmt_ptr \<Rightarrow> int \<Rightarrow> sim \<Rightarrow> cstr" where
  "sim_column_name stmt i e =
     (case stmt of
        None \<Rightarrow> None
      | Some k \<Rightarrow>
          (case sim_stmt e of
             None \<Rightarrow> None
           | Some (Query cur) \<Rightarrow>
               if 0 \<le> i \<and> i < int (length (cur_names cur)) then Some (cur_names cur ! nat i)
               else None
           | Some (Update u) \<Rightarrow> None))"

definition sim_column_text :: "stmt_ptr \<Rightarrow> int \<Rightarrow> sim \<Rightarrow> cstr" where
  "sim_column_text stmt i e =
     (case stmt of
        None \<Rightarrow> None
      | Some k \<Rightarrow>
          (case sim_stmt e of
             None \<Rightarrow> None
           | Some (Query cur) \<Rightarrow>
               if 0 \<le> i \<and> i < int (length (cur_row cur)) then cur_row cur ! nat i
               else None
           | Some (Update u) \<Rightarrow> None))"

definition sim_finalize :: "stmt_ptr \<Rightarrow> sim \<Rightarrow> sim" where
  "sim_finalize stmt e = e\<lparr>sim_stmt := None\<rparr>"

definition sim_engine :: "sim engine" where
  "sim_engine =
     \<lparr>sqlite3_open = sim_open,
      sqlite3_close = sim_close,
      sqlite3_prepare_v2 = sim_prepare,
      sqlite3_column_count = sim_column_count,
      sqlite3_column_name = sim_column_name,
      sqlite3_step = sim_step,
      sqlite3_column_text = sim_column_text,
      sqlite3_bind_text = sim_bind_text,
      sqlite3_finalize = sim_finalize\<rparr>"

section \<open>Observations\<close>

text \<open>
  What a statement about a run reads off its result: the texts of the statements prepared
  (from the log of engine calls), the log with the bound values blanked, the code returned
  and the engine state left, the rows of the model that the rows view holds, and the world
  in which \<open>db_open\<close> calls the engine (the prior connection closed).
\<close>

primrec sql_texts :: "call list \<Rightarrow> string list" where
  "sql_texts [] = []"
| "sql_texts (x # xs) =
     (case x of Prepare h sql \<Rightarrow> sql # sql_texts xs | _ \<Rightarrow> sql_texts xs)"

fun erase_bound :: "call \<Rightarrow> call" where
  "erase_bound (Bind_text stmt i txt) = Bind_text stmt i None"
| "erase_bound x = x"

definition calls_of :: "(int \<times> context_td option \<times> 'e world) outcome \<Rightarrow> call list outcome" where
  "calls_of r = map_outcome (\<lambda>x. calls (snd (snd x))) r"

definition code_of :: "(int \<times> context_td option \<times> 'e world) outcome \<Rightarrow> int outcome" where
  "code_of r = map_outcome fst r"

definition eng_of :: "(int \<times> context_td option \<times> 'e world) outcome \<Rightarrow> 'e outcome" where
  "eng_of r = map_outcome (\<lambda>x. eng (snd (snd x))) r"

definition snapshot ::
  "(int \<times> context_td option \<times> 'e world) outcome option \<Rightarrow> string list list option" where
  "snapshot r =
     (case r of
        Some (Returns (rc, Some c, w)) \<Rightarrow>
          (case rows_view c of None \<Rightarrow> None | Some tv \<Rightarrow> tv_model tv)
      | _ \<Rightarrow> None)"

definition prior_closed :: "'e engine \<Rightarrow> context_td \<Rightarrow> 'e world \<Rightarrow> 'e world" where
  "prior_closed E c w = (case db c of None \<Rightarrow> w | Some h \<Rightarrow> call_close E h w)"


definition first_column :: "cstr list \<Rightarrow> cstr" where
  "first_column r = (if 0 < length r then r ! 0 else None)"

text \<open>The fetch statement as the specification writes it, for the table name \<open>t\<close>.\<close>

definition spec_fetch_statement :: "string \<Rightarrow> string" where
  \<open>spec_fetch_statement t = ''SELECT rowid, * FROM "'' @ t @ ''" LIMIT 100;''\<close>

section \<open>Example states\<close>

text \<open>
  The context as \<open>ui_build\<close> leaves it (no connection, an empty table list, an empty rows
  view); a database file with the tables \<^verbatim>\<open>users\<close>, \<^verbatim>\<open>sqlitex\<close> and \<^verbatim>\<open>big\<close> (150 rows),
  the internal table \<^verbatim>\<open>sqlite_sequence\<close> and an index; a path in a directory that does not
  exist.
\<close>

definition ctx0 :: context_td where
  "ctx0 =
     \<lparr>db = None, win = Some 1, tables_view = Some 2,
      rows_view = Some \<lparr>tv_columns = [], tv_model = None\<rparr>,
      tables_store = Some [], current_ncols = 0, current_colnames = None,
      current_tablename = None\<rparr>"

definition big_table :: sim_object where
  "big_table =
     \<lparr>obj_type = ''table'', obj_name = ''big'', obj_cols = [''v''],
      obj_rows = map (\<lambda>i. (int i, [Some ''v''])) [1..<151]\<rparr>"

definition schema0 :: "sim_object list" where
  "schema0 =
     [\<lparr>obj_type = ''table'', obj_name = ''users'', obj_cols = [''a'', ''b''],
       obj_rows = [(1, [Some ''x'', Some ''y'']), (2, [Some ''p'', None])]\<rparr>,
      \<lparr>obj_type = ''table'', obj_name = ''sqlitex'', obj_cols = [''a''], obj_rows = []\<rparr>,
      \<lparr>obj_type = ''table'', obj_name = ''sqlite_sequence'', obj_cols = [''name'', ''seq''],
       obj_rows = []\<rparr>,
      \<lparr>obj_type = ''index'', obj_name = ''users_a'', obj_cols = [], obj_rows = []\<rparr>,
      big_table]"

definition sim0 :: sim where
  "sim0 =
     \<lparr>sim_files = [(''/data/app.db'', schema0)],
      sim_blocked = [''/nowhere/app.db''],
      sim_conns = [],
      sim_stmt = None,
      sim_next = 1\<rparr>"

definition world0 :: "sim world" where
  "world0 = \<lparr>eng = sim0, heap = [], calls = []\<rparr>"

text \<open>The same after \<open>db_open\<close> of the database file.\<close>

definition ctx1 :: context_td where
  "ctx1 = ctx0\<lparr>db := Some 1\<rparr>"

definition world1 :: "sim world" where
  "world1 =
     \<lparr>eng = sim0\<lparr>sim_conns := [(1, Some ''/data/app.db'')], sim_next := 2\<rparr>,
      heap = [], calls = [Open (Some ''/data/app.db'')]\<rparr>"

text \<open>The context after \<open>db_populate_rows\<close> of the table \<^verbatim>\<open>users\<close>.\<close>

definition ctx2 :: context_td where
  "ctx2 =
     ctx1\<lparr>rows_view := Some \<lparr>tv_columns = [''rowid'', ''a'', ''b''],
                               tv_model = Some [[''1'', ''x'', ''y''], [''2'', ''p'', []]]\<rparr>,
          current_ncols := 3,
          current_colnames := Some [Some ''rowid'', Some ''a'', Some ''b''],
          current_tablename := Some ''users''\<rparr>"


declare fill_table_list_loop.simps [code]
declare populate_rows_loop.simps [code]

section \<open>Basic facts\<close>

lemmas rc_defs = SQLITE_OK_def SQLITE_ERROR_def SQLITE_NOMEM_def SQLITE_CANTOPEN_def
  SQLITE_MISUSE_def SQLITE_ROW_def SQLITE_DONE_def

lemma sim_engine_sel [simp]:
  "sqlite3_open sim_engine = sim_open"
  "sqlite3_close sim_engine = sim_close"
  "sqlite3_prepare_v2 sim_engine = sim_prepare"
  "sqlite3_column_count sim_engine = sim_column_count"
  "sqlite3_column_name sim_engine = sim_column_name"
  "sqlite3_step sim_engine = sim_step"
  "sqlite3_column_text sim_engine = sim_column_text"
  "sqlite3_bind_text sim_engine = sim_bind_text"
  "sqlite3_finalize sim_engine = sim_finalize"
  by (simp_all add: sim_engine_def)

lemma fmt_limit: "fmt_d SQL_QUERY_MAX_LIMIT = ''100''"
  by (simp add: fmt_d_def SQL_QUERY_MAX_LIMIT_def dec.simps)

lemma select_fmt_text: "select_rowid_all_fmt t = spec_fetch_statement t"
  by (simp add: select_rowid_all_fmt_def spec_fetch_statement_def fmt_limit)

subsection \<open>The log and the engine state across the allocator and the engine calls\<close>

lemma sql_texts_append: "sql_texts (xs @ ys) = sql_texts xs @ sql_texts ys"
  by (induction xs) (auto split: call.splits)

lemma sql_texts_erase: "sql_texts (map erase_bound xs) = sql_texts xs"
proof (induction xs)
  case Nil
  then show ?case by simp
next
  case (Cons x xs)
  then show ?case by (cases x) simp_all
qed

lemma alloc_world: "alloc w = (ok, w1) \<Longrightarrow> calls w1 = calls w \<and> eng w1 = eng w"
  by (auto simp: alloc_def split: list.splits)

lemma alloc_empty_heap: "heap w = [] \<Longrightarrow> alloc w = (True, w)"
  by (simp add: alloc_def)









lemma call_finalize_sql [simp]:
  "sql_texts (calls (call_finalize E stmt w)) = sql_texts (calls w)"
  by (simp add: call_finalize_def sql_texts_append)

subsection \<open>The row loop prepares nothing\<close>




subsection \<open>The loops on the model engine\<close>


lemma column_text_sim:
  "sim_stmt e = Some (Query cur) \<Longrightarrow> sim_column_text (Some k) 0 e = first_column (cur_row cur)"
  by (simp add: sim_column_text_def first_column_def)


lemma fill_loop_sim:
  "sim_stmt (eng w) = Some (Query cur) \<Longrightarrow>
   \<exists>w'. fill_table_list_loop sim_engine (Some k) store w =
           Some (store @ map first_column (cur_pending cur), w')"
proof (induction "cur_pending cur" arbitrary: cur w store)
  case Nil
  then show ?case
    by (subst fill_table_list_loop.simps) (simp add: call_step_def sim_step_def rc_defs)
next
  case (Cons r rs)
  let ?cur = "cur\<lparr>cur_pending := rs, cur_row := r\<rparr>"
  let ?w = "w\<lparr>eng := (eng w)\<lparr>sim_stmt := Some (Query ?cur)\<rparr>,
               calls := calls w @ [Step (Some k)]\<rparr>"
  have step: "call_step sim_engine (Some k) w = (SQLITE_ROW, ?w)"
    using Cons.hyps(2) [symmetric] Cons.prems by (simp add: call_step_def sim_step_def)
  have "rs = cur_pending ?cur" by simp
  moreover have "sim_stmt (eng ?w) = Some (Query ?cur)" by simp
  ultimately obtain w' where
    "fill_table_list_loop sim_engine (Some k) (store @ [first_column r]) ?w =
       Some ((store @ [first_column r]) @ map first_column (cur_pending ?cur), w')"
    using Cons.hyps(1) by blast
  then show ?case
    using step Cons.hyps(2) [symmetric]
    by (subst fill_table_list_loop.simps) (simp add: column_text_sim [where cur = ?cur])
qed

subsection \<open>The fetch statement on the model engine\<close>








subsection \<open>Evaluated runs on the example states\<close>

lemma db_open_unfold:
  "db_open E (Some c) filename w =
     (fst (fst (call_open E filename (prior_closed E c w))),
      Some (c\<lparr>db := snd (fst (call_open E filename (prior_closed E c w)))\<rparr>),
      snd (call_open E filename (prior_closed E c w)))"
  by (simp add: db_open_def prior_closed_def split: option.splits prod.splits)

lemma db_open_example:
  "db_open sim_engine (Some ctx0) (Some ''/data/app.db'') world0 = (SQLITE_OK, Some ctx1, world1)"
  by (simp add: db_open_def ctx0_def ctx1_def world0_def world1_def sim0_def call_open_def
      sim_open_def Let_def)

lemma big_table_sel: "obj_type big_table = ''table''" "obj_name big_table = ''big''"
  by (simp_all add: big_table_def)

lemma master_query_example: "master_query schema0 = [''big'', ''users'']"
  by (simp add: master_query_def schema0_def big_table_def ascii_lower_def)



lemma update_users_example:
  "db_apply_update_cell sim_engine (Some ctx2) 2 (Some ''1'') (Some ''z'') world1 =
     Returns (SQLITE_OK, Some ctx2,
       world1\<lparr>eng := (eng world1)
                \<lparr>sim_files := run_update
                    \<lparr>upd_path = ''/data/app.db'', upd_table = ''users'', upd_col = 1,
                     upd_bound = [(2, Some ''1''), (1, Some ''z'')]\<rparr> (sim_files sim0),
                  sim_next := 3\<rparr>,
              calls := calls world1 @
                [Prepare 1 (update_fmt ''users'' ''b''), Bind_text (Some 2) 1 (Some ''z''),
                 Bind_text (Some 2) 2 (Some ''1''), Step (Some 2), Finalize (Some 2)]\<rparr>)"
  by (simp add: db_apply_update_cell_def update_named_def Let_def ctx2_def ctx1_def ctx0_def
      world1_def sim0_def snprintf_ret_def update_fmt_def INT_MAX_def call_prepare_def
      sim_prepare_def sim_compile_def list_tables_sql_def parse_select_def parse_update_def
      strip_prefix_def after_name_def quoted_name_def find_table_def same_name_def schema0_def
      ascii_lower_def rc_defs call_bind_text_def sim_bind_text_def call_step_def sim_step_def
      call_finalize_def sim_finalize_def)

lemma update_then_reload_example:
  "snapshot (case db_apply_update_cell sim_engine (Some ctx2) 2 (Some ''1'') (Some ''z'') world1 of
               Returns (rc, s, w) \<Rightarrow> db_populate_rows sim_engine s (Some ''users'') w
             | Undefined_Behaviour \<Rightarrow> None) =
     Some [[''1'', ''x'', ''z''], [''2'', ''p'', []]]"
  unfolding update_users_example
  by (simp add: db_populate_rows_def populate_checked_def populate_prepared_def free_columns_def
      Let_def ctx2_def ctx1_def ctx0_def world1_def sim0_def strdup_def alloc_def
      s_make_select_rowid_all_def snprintf_ret_def select_fmt_text spec_fetch_statement_def
      INT_MAX_def call_prepare_def sim_prepare_def sim_compile_def list_tables_sql_def
      parse_select_def strip_prefix_def after_name_def quoted_name_def
      is_digit_def digits_value_def find_table_def same_name_def schema0_def
      ascii_lower_def rc_defs select_rows_def sim_column_count_def calloc_colnames_def
      upt_rec sim_column_name_def populate_rows_loop.simps call_step_def sim_step_def
      read_row_def sim_column_text_def call_finalize_def sim_finalize_def fmt_d_def dec.simps
      run_update_def update_object_def update_row_def snapshot_def big_table_sel)

subsection \<open>What the catalog query returns on the model engine\<close>

text \<open>
  On an open connection \<open>db_fill_table_list\<close> succeeds and stores the names that the
  catalog query selects. They are in ascending order, strictly so when the tables of the
  catalog have distinct names, and none of them begins with \<^verbatim>\<open>sqlite_\<close>.
\<close>

lemma like_percent: "sql_like [CHR 0x25] s"
  by (induction s) simp_all

lemma like_internal: "take 7 n = ''sqlite_'' \<Longrightarrow> sql_like ''sqlite_%'' n"
proof -
  assume a: "take 7 n = ''sqlite_''"
  then have "n = ''sqlite_'' @ drop 7 n" by (metis append_take_drop_id)
  then obtain rest where "n = ''sqlite_'' @ rest" ..
  then show ?thesis using like_percent [of rest] by (cases rest) (simp_all add: ascii_lower_def)
qed

lemma master_query_sorted: "sorted (master_query schema)"
  by (simp add: master_query_def)

lemma master_query_strict:
  assumes "distinct (map obj_name (filter (\<lambda>ob. obj_type ob = ''table'') schema))"
  shows "sorted_wrt (<) (master_query schema)"
proof -
  have e: "filter (\<lambda>ob. obj_type ob = ''table'' \<and> \<not> sql_like ''sqlite_%'' (obj_name ob)) schema =
        filter (\<lambda>ob. \<not> sql_like ''sqlite_%'' (obj_name ob))
          (filter (\<lambda>ob. obj_type ob = ''table'') schema)"
    by (simp add: conj_commute)
  have "distinct (map obj_name
      (filter (\<lambda>ob. obj_type ob = ''table'' \<and> \<not> sql_like ''sqlite_%'' (obj_name ob)) schema))"
    unfolding e using assms by (rule distinct_map_filter)
  then have "distinct (master_query schema)"
    by (simp add: master_query_def)
  with master_query_sorted [of schema] show ?thesis by (simp add: strict_sorted_iff)
qed

lemma master_query_no_internal:
  assumes "n \<in> set (master_query schema)"
  shows "take 7 n \<noteq> ''sqlite_''"
  using assms like_internal [of n] by (auto simp: master_query_def)

lemma list_tables_model:
  assumes "db c = Some h" and "tables_store c = Some old"
    and "map_of (sim_conns (eng w)) h = Some (Some path)"
    and "map_of (sim_files (eng w)) path = Some schema"
  shows "\<exists>w1. db_fill_table_list sim_engine (Some c) w =
           Some (SQLITE_OK, Some (c\<lparr>tables_store := Some (map Some (master_query schema))\<rparr>), w1)"
proof -
  let ?cur = "\<lparr>cur_names = [''name''], cur_pending = map (\<lambda>n. [Some n]) (master_query schema),
               cur_row = []\<rparr>"
  let ?w1 = "w\<lparr>eng := (eng w)\<lparr>sim_stmt := Some (Query ?cur), sim_next := Suc (sim_next (eng w))\<rparr>,
                calls := calls w @ [Prepare h list_tables_sql]\<rparr>"
  have p: "call_prepare sim_engine h list_tables_sql w = ((SQLITE_OK, Some (sim_next (eng w))), ?w1)"
    using assms(3,4) by (simp add: call_prepare_def sim_prepare_def sim_compile_def)
  have "sim_stmt (eng ?w1) = Some (Query ?cur)" by simp
  from fill_loop_sim [OF this, of "sim_next (eng w)" "[]"] obtain w2 where
    "fill_table_list_loop sim_engine (Some (sim_next (eng w))) [] ?w1 =
       Some (map first_column (cur_pending ?cur), w2)" by auto
  moreover have "map first_column (cur_pending ?cur) = map Some (master_query schema)"
    by (simp add: first_column_def comp_def)
  ultimately show ?thesis using assms(1,2) p by (simp add: db_fill_table_list_def)
qed

subsection \<open>The column index of \<open>db_apply_update_cell\<close>\<close>

lemma update_cell_out_of_range:
  assumes "db c = Some h" and "current_tablename c = Some t" and "current_colnames c = Some names"
    and "colidx \<noteq> 0" and "colidx < 0 \<or> int (length names) \<le> colidx"
  shows "db_apply_update_cell E (Some c) colidx rowid_text new_text w = Undefined_Behaviour"
  using assms by (auto simp: db_apply_update_cell_def)

lemma update_cell_null_entry:
  assumes "db c = Some h" and "current_tablename c = Some t" and "current_colnames c = Some names"
    and "0 < colidx" and "colidx < int (length names)" and "names ! nat colidx = None"
  shows "db_apply_update_cell E (Some c) colidx rowid_text new_text w =
           Returns (SQLITE_MISUSE, Some c, w)"
  using assms by (auto simp: db_apply_update_cell_def)

section \<open>Connection manager\<close>

text \<open>
  Claim C9. For every session in which Open succeeded, after a subsequent Close the
  reference to the active connection is null, a second Close changes nothing, and both
  ListTables and LoadTable called on that session fail with a Misuse error, whatever the
  table name and the state of the world.
\<close>

theorem close_then_misuse:
  assumes "db_open E (Some c) filename w = (SQLITE_OK, Some c1, w1)"
    and "db_close E (Some c1) w1 = (s2, w2)"
  shows "map_option db s2 = Some None
    \<and> db_close E s2 w2 = (s2, w2)
    \<and> db_fill_table_list E s2 w3 = Some (SQLITE_MISUSE, s2, w3)
    \<and> db_populate_rows E s2 table w3 = Some (Returns (SQLITE_MISUSE, s2, w3))"
  using assms(2)
  by (auto simp: db_close_def db_fill_table_list_def db_populate_rows_def split: option.splits)

theorem close_then_misuse_witness:
  "db_open sim_engine (Some ctx0) (Some ''/data/app.db'') world0 = (SQLITE_OK, Some ctx1, world1)
   \<and> db_close sim_engine (Some ctx1) world1 = (Some ctx0, call_close sim_engine 1 world1)
   \<and> map_option db (Some ctx0) = Some None
   \<and> db_close sim_engine (Some ctx0) (call_close sim_engine 1 world1) =
       (Some ctx0, call_close sim_engine 1 world1)
   \<and> db_fill_table_list sim_engine (Some ctx0) world0 = Some (SQLITE_MISUSE, Some ctx0, world0)
   \<and> db_populate_rows sim_engine (Some ctx0) (Some ''users'') world0 =
       Some (Returns (SQLITE_MISUSE, Some ctx0, world0))"
proof -
  have o: "db_open sim_engine (Some ctx0) (Some ''/data/app.db'') world0 =
      (SQLITE_OK, Some ctx1, world1)"
    by (rule db_open_example)
  have c: "db_close sim_engine (Some ctx1) world1 = (Some ctx0, call_close sim_engine 1 world1)"
    by (simp add: db_close_def ctx1_def ctx0_def)
  from close_then_misuse [OF o c, of world0 "Some ''users''"] o c show ?thesis by simp
qed

text \<open>
  Claim C2 as stated, and where it fails. The claim says that after a failed Open the handle
  in the context is null. \<open>db_open\<close> clears the handle of the prior connection,
  but then lets \<^verbatim>\<open>sqlite3_open\<close> write the new one and returns its
  code without looking at it: on the model engine, as with SQLite, a path that cannot be
  opened gives \<open>SQLITE_CANTOPEN\<close> together with a handle, and that handle stays
  in the context (the caller in \<^verbatim>\<open>ui.c\<close> reads the error message from
  it and then calls \<open>db_close\<close>).
\<close>

theorem failed_open_keeps_handle:
  "fst (db_open sim_engine (Some ctx0) (Some ''/nowhere/app.db'') world0) = SQLITE_CANTOPEN
   \<and> SQLITE_CANTOPEN \<noteq> SQLITE_OK
   \<and> map_option db (fst (snd (db_open sim_engine (Some ctx0) (Some ''/nowhere/app.db'') world0))) =
       Some (Some 1)"
  by (simp add: db_open_def ctx0_def world0_def sim0_def call_open_def sim_open_def Let_def
      rc_defs)

text \<open>
  Claim C2, as amended. If Open returns a code other than success, the connection that was
  active before the call has been closed (the log of the engine calls is extended by that
  close and by the open), and the handle of the context is the one that the open call of the
  engine stored: it is null only if the engine stored none.
\<close>

theorem failed_open_state:
  assumes "fst (db_open E (Some c) filename w) \<noteq> SQLITE_OK"
  shows "fst (snd (db_open E (Some c) filename w)) =
           Some (c\<lparr>db := snd (fst (sqlite3_open E filename (eng (prior_closed E c w))))\<rparr>)
    \<and> calls (snd (snd (db_open E (Some c) filename w))) =
        calls w @ (case db c of None \<Rightarrow> [] | Some h \<Rightarrow> [Close h]) @ [Open filename]"
  by (auto simp: db_open_unfold call_open_def prior_closed_def call_close_def
      split: prod.splits option.splits)

theorem failed_open_state_witness:
  "fst (db_open sim_engine (Some ctx1) (Some ''/nowhere/app.db'') world1) \<noteq> SQLITE_OK
   \<and> fst (snd (db_open sim_engine (Some ctx1) (Some ''/nowhere/app.db'') world1)) =
       Some (ctx1\<lparr>db := Some 2\<rparr>)
   \<and> calls (snd (snd (db_open sim_engine (Some ctx1) (Some ''/nowhere/app.db'') world1))) =
       [Open (Some ''/data/app.db''), Close 1, Open (Some ''/nowhere/app.db'')]"
proof -
  have f: "fst (db_open sim_engine (Some ctx1) (Some ''/nowhere/app.db'') world1) \<noteq> SQLITE_OK"
    by (simp add: db_open_def ctx1_def ctx0_def world1_def sim0_def call_open_def call_close_def
        sim_open_def sim_close_def Let_def rc_defs)
  from failed_open_state [OF f] f show ?thesis
    by (simp add: prior_closed_def ctx1_def ctx0_def world1_def sim0_def call_close_def
        sim_open_def sim_close_def Let_def)
qed

text \<open>
  Claim C3 as stated, and where it fails. The claim says that Open of a path that names no
  existing file returns an error and leaves no connection. \<open>db_open\<close> calls
  \<^verbatim>\<open>sqlite3_open\<close>, which creates a database that does not exist: on
  the model engine the file \<^verbatim>\<open>/data/new.db\<close> does not exist, Open
  returns \<open>SQLITE_OK\<close> and the context holds the new connection. (The caller in
  \<^verbatim>\<open>ui.c\<close> rejects such a path before Open, with the read-only probe
  \<open>db_is_sqlite\<close>.)
\<close>

theorem open_missing_file_succeeds:
  "''/data/new.db'' \<notin> set (map fst (sim_files (eng world0)))
   \<and> fst (db_open sim_engine (Some ctx0) (Some ''/data/new.db'') world0) = SQLITE_OK
   \<and> map_option db (fst (snd (db_open sim_engine (Some ctx0) (Some ''/data/new.db'') world0))) =
       Some (Some 1)"
  by (simp add: db_open_def ctx0_def world0_def sim0_def call_open_def sim_open_def Let_def
      rc_defs)

text \<open>
  Claim C3, as amended. For every path, whether or not it names an existing file, Open
  returns the very code that the open call of the engine returns for it, and leaves in the
  context the handle that this call stored. On the model engine the code is
  \<open>SQLITE_CANTOPEN\<close> for a path that can be neither opened nor created and
  success for every other path, and a handle is stored in both cases.
\<close>

theorem open_returns_engine_code:
  "fst (db_open E (Some c) filename w) =
     fst (fst (sqlite3_open E filename (eng (prior_closed E c w))))
   \<and> map_option db (fst (snd (db_open E (Some c) filename w))) =
       Some (snd (fst (sqlite3_open E filename (eng (prior_closed E c w)))))
   \<and> fst (db_open sim_engine (Some c) (Some path) v) =
       (if path \<in> set (sim_blocked (eng v)) then SQLITE_CANTOPEN else SQLITE_OK)
   \<and> map_option db (fst (snd (db_open sim_engine (Some c) (Some path) v))) =
       Some (Some (sim_next (eng v)))"
  by (auto simp: db_open_unfold call_open_def prior_closed_def call_close_def sim_open_def
      sim_close_def Let_def split: prod.splits option.splits)

theorem open_returns_engine_code_witness:
  "fst (db_open sim_engine (Some ctx0) (Some ''/data/new.db'') world0) = SQLITE_OK
   \<and> fst (db_open sim_engine (Some ctx0) (Some ''/nowhere/app.db'') world0) = SQLITE_CANTOPEN
   \<and> map_option db (fst (snd (db_open sim_engine (Some ctx0) (Some ''/nowhere/app.db'') world0))) =
       Some (Some 1)"
  using open_returns_engine_code [of sim_engine ctx0 "Some ''/data/new.db''" world0
      "''/data/new.db''" world0]
    open_returns_engine_code [of sim_engine ctx0 "Some ''/nowhere/app.db''" world0
      "''/nowhere/app.db''" world0]
  by (simp add: world0_def sim0_def)

section \<open>Row materializer\<close>




text \<open>
  Claim C10. Whenever LoadTable or UpdateCell returns a Misuse error because a
  precondition check fails (null context, no connection, no rows view, null table name,
  no current table name or no column names), the session state and the world are exactly
  as before the call: the result carries the context and the world it was given.
\<close>

theorem misuse_preserves_session:
  "(s = None \<or> (\<exists>c. s = Some c \<and> (db c = None \<or> rows_view c = None)) \<or> table = None
      \<longrightarrow> db_populate_rows E s table w = Some (Returns (SQLITE_MISUSE, s, w)))
   \<and> (s = None \<or> (\<exists>c. s = Some c \<and>
          (db c = None \<or> current_tablename c = None \<or> current_colnames c = None))
      \<longrightarrow> db_apply_update_cell E s colidx rowid_text new_text w =
            Returns (SQLITE_MISUSE, s, w))"
  by (auto simp: db_populate_rows_def db_apply_update_cell_def split: option.splits)

theorem misuse_preserves_session_witness:
  "db ctx0 = None
   \<and> db_populate_rows sim_engine (Some ctx0) (Some ''users'') world0 =
       Some (Returns (SQLITE_MISUSE, Some ctx0, world0))
   \<and> db_apply_update_cell sim_engine (Some ctx0) 1 (Some ''1'') (Some ''z'') world0 =
       Returns (SQLITE_MISUSE, Some ctx0, world0)"
proof -
  have d: "db ctx0 = None" by (simp add: ctx0_def)
  from misuse_preserves_session
    [of "Some ctx0" "Some ''users''" sim_engine world0 1 "Some ''1''" "Some ''z''"] d
  show ?thesis by simp
qed




section \<open>Schema lister\<close>

text \<open>
  Claim C7 (not met by the code). The claim says that ListTables returns exactly the catalog
  entries of kind table whose name does not have the reserved prefix
  \<^verbatim>\<open>sqlite_\<close>. In the pattern \<^verbatim>\<open>sqlite_%\<close> of
  the query the underscore is the wildcard of \<^verbatim>\<open>LIKE\<close> for any single
  character, so the query also drops every table whose name begins with
  \<^verbatim>\<open>sqlite\<close> and one more character. The example database has the
  user table \<^verbatim>\<open>sqlitex\<close>, which does not have the prefix; the list
  that \<open>db_fill_table_list\<close> stores is \<^verbatim>\<open>big\<close>,
  \<^verbatim>\<open>users\<close>.
\<close>

theorem list_tables_omits_sqlitex:
  "db_fill_table_list sim_engine (Some ctx1) world1 =
     Some (SQLITE_OK, Some (ctx1\<lparr>tables_store := Some [Some ''big'', Some ''users'']\<rparr>),
       world1\<lparr>eng := (eng world1)\<lparr>sim_next := 3\<rparr>,
              calls := calls world1 @
                [Prepare 1 list_tables_sql, Step (Some 2), Step (Some 2), Step (Some 2),
                 Finalize (Some 2)]\<rparr>)
   \<and> map_of (sim_files (eng world1)) ''/data/app.db'' = Some schema0
   \<and> map obj_type (filter (\<lambda>ob. obj_name ob = ''sqlitex'') schema0) = [''table'']
   \<and> take 7 ''sqlitex'' \<noteq> ''sqlite_''"
  by (simp add: db_fill_table_list_def ctx1_def ctx0_def world1_def sim0_def call_prepare_def
      sim_prepare_def sim_compile_def master_query_example fill_table_list_loop.simps
      call_step_def sim_step_def sim_column_text_def call_finalize_def sim_finalize_def rc_defs)
    (simp add: schema0_def big_table_def)

section \<open>Cell updater\<close>

text \<open>
  Claim C1 (not met by the code). The claim says that UpdateCell returns a Misuse error for
  every column index that does not address a real column.
  \<open>db_apply_update_cell\<close> reads
  \<^verbatim>\<open>s->current_colnames[colidx]\<close> without comparing the index with
  \<open>current_ncols\<close>: only a null entry inside the array gives Misuse. With the
  three column names of the table \<^verbatim>\<open>users\<close> loaded, the indices 3 and
  -1 read outside the array, which is undefined behaviour and not a return of
  \<open>SQLITE_MISUSE\<close>.
\<close>

theorem update_cell_index_unchecked:
  "db_apply_update_cell E (Some ctx2) 3 rowid_text new_text w = Undefined_Behaviour
   \<and> db_apply_update_cell E (Some ctx2) (- 1) rowid_text new_text w = Undefined_Behaviour
   \<and> current_ncols ctx2 = 3"
  by (simp add: db_apply_update_cell_def ctx2_def ctx1_def ctx0_def)

text \<open>
  Claim C8. For every session with an active connection, a current table name and column
  names, and for every row identity and new text, UpdateCell with column index 0 returns
  success and leaves the context and the world as they are: no engine call is logged and
  the engine state, which holds the stored data, is unchanged.
\<close>

theorem update_rowid_column_noop:
  assumes "db c \<noteq> None" and "current_tablename c \<noteq> None" and "current_colnames c \<noteq> None"
  shows "db_apply_update_cell E (Some c) 0 rowid_text new_text w = Returns (SQLITE_OK, Some c, w)"
  using assms by (auto simp: db_apply_update_cell_def split: option.splits)

theorem update_rowid_column_noop_witness:
  "db ctx2 \<noteq> None \<and> current_tablename ctx2 \<noteq> None \<and> current_colnames ctx2 \<noteq> None
   \<and> db_apply_update_cell sim_engine (Some ctx2) 0 (Some ''1'') (Some ''z'') world1 =
       Returns (SQLITE_OK, Some ctx2, world1)"
proof -
  have a: "db ctx2 \<noteq> None" and b: "current_tablename ctx2 \<noteq> None"
    and c: "current_colnames ctx2 \<noteq> None"
    by (simp_all add: ctx2_def ctx1_def ctx0_def)
  from update_rowid_column_noop [OF a b c] a b c show ?thesis by simp
qed

lemma update_named_calls:
  "map_outcome (map erase_bound) (calls_of (update_named E h c t col r1 n1 w)) =
   map_outcome (map erase_bound) (calls_of (update_named E h c t col r2 n2 w))"
  by (auto simp: update_named_def calls_of_def call_prepare_def call_bind_text_def call_step_def
      call_finalize_def Let_def split: option.splits prod.splits if_splits)

lemma apply_update_calls:
  "map_outcome (map erase_bound) (calls_of (db_apply_update_cell E s colidx r1 n1 w)) =
   map_outcome (map erase_bound) (calls_of (db_apply_update_cell E s colidx r2 n2 w))"
  by (simp add: db_apply_update_cell_def update_named_calls split: option.splits)

lemma update_named_prepared:
  assumes "0 \<le> snprintf_ret (update_fmt t col)"
    and "snprintf_ret (update_fmt t col) < 512 \<or> fst (alloc w)"
    and "fst (sqlite3_prepare_v2 E h (update_fmt t col) (eng w)) = (SQLITE_OK, stmt)"
  shows "calls_of (update_named E h c t col rowid_text new_text w) =
           Returns (calls w @ [Prepare h (update_fmt t col), Bind_text stmt 1 new_text,
                               Bind_text stmt 2 rowid_text, Step stmt, Finalize stmt])"
    and "eng_of (update_named E h c t col rowid_text new_text w) =
           Returns (sqlite3_finalize E stmt (snd (sqlite3_step E stmt
             (sqlite3_bind_text E stmt 2 rowid_text (sqlite3_bind_text E stmt 1 new_text
               (snd (sqlite3_prepare_v2 E h (update_fmt t col) (eng w))))))))"
    and "code_of (update_named E h c t col rowid_text new_text w) =
           Returns (let rc = fst (sqlite3_step E stmt
             (sqlite3_bind_text E stmt 2 rowid_text (sqlite3_bind_text E stmt 1 new_text
               (snd (sqlite3_prepare_v2 E h (update_fmt t col) (eng w))))))
            in if rc = SQLITE_DONE then SQLITE_OK else rc)"
proof -
  obtain ok w1 where a: "(if 512 \<le> snprintf_ret (update_fmt t col) then alloc w else (True, w)) = (ok, w1)"
    by (cases "if 512 \<le> snprintf_ret (update_fmt t col) then alloc w else (True, w)")
  with assms(2) have ok: "ok" by (auto split: if_splits)
  from a have w1: "calls w1 = calls w \<and> eng w1 = eng w"
    by (auto split: if_splits dest: alloc_world)
  show "calls_of (update_named E h c t col rowid_text new_text w) =
           Returns (calls w @ [Prepare h (update_fmt t col), Bind_text stmt 1 new_text,
                               Bind_text stmt 2 rowid_text, Step stmt, Finalize stmt])"
    using assms(1,3) a ok w1
    by (auto simp: update_named_def calls_of_def call_prepare_def call_bind_text_def
        call_step_def call_finalize_def Let_def split: prod.splits)
  show "eng_of (update_named E h c t col rowid_text new_text w) =
           Returns (sqlite3_finalize E stmt (snd (sqlite3_step E stmt
             (sqlite3_bind_text E stmt 2 rowid_text (sqlite3_bind_text E stmt 1 new_text
               (snd (sqlite3_prepare_v2 E h (update_fmt t col) (eng w))))))))"
    using assms(1,3) a ok w1
    by (auto simp: update_named_def eng_of_def call_prepare_def call_bind_text_def
        call_step_def call_finalize_def Let_def split: prod.splits)
  show "code_of (update_named E h c t col rowid_text new_text w) =
           Returns (let rc = fst (sqlite3_step E stmt
             (sqlite3_bind_text E stmt 2 rowid_text (sqlite3_bind_text E stmt 1 new_text
               (snd (sqlite3_prepare_v2 E h (update_fmt t col) (eng w))))))
            in if rc = SQLITE_DONE then SQLITE_OK else rc)"
    using assms(1,3) a ok w1
    by (auto simp: update_named_def code_of_def call_prepare_def call_bind_text_def
        call_step_def call_finalize_def Let_def split: prod.splits)
qed

lemma update_named_not_prepared:
  assumes "0 \<le> snprintf_ret (update_fmt t col)"
    and "snprintf_ret (update_fmt t col) < 512 \<or> fst (alloc w)"
    and "fst (sqlite3_prepare_v2 E h (update_fmt t col) (eng w)) = (rc, stmt)"
    and "rc \<noteq> SQLITE_OK"
  shows "calls_of (update_named E h c t col rowid_text new_text w) =
           Returns (calls w @ [Prepare h (update_fmt t col)] @
                    (case stmt of None \<Rightarrow> [] | Some p \<Rightarrow> [Finalize stmt]))"
    and "code_of (update_named E h c t col rowid_text new_text w) = Returns rc"
proof -
  obtain ok w1 where a: "(if 512 \<le> snprintf_ret (update_fmt t col) then alloc w else (True, w)) = (ok, w1)"
    by (cases "if 512 \<le> snprintf_ret (update_fmt t col) then alloc w else (True, w)")
  with assms(2) have ok: "ok" by (auto split: if_splits)
  from a have w1: "calls w1 = calls w \<and> eng w1 = eng w"
    by (auto split: if_splits dest: alloc_world)
  show "calls_of (update_named E h c t col rowid_text new_text w) =
           Returns (calls w @ [Prepare h (update_fmt t col)] @
                    (case stmt of None \<Rightarrow> [] | Some p \<Rightarrow> [Finalize stmt]))"
    using assms(1,3,4) a ok w1
    by (auto simp: update_named_def calls_of_def call_prepare_def call_finalize_def Let_def
        split: prod.splits option.splits)
  show "code_of (update_named E h c t col rowid_text new_text w) = Returns rc"
    using assms(1,3,4) a ok w1
    by (auto simp: update_named_def code_of_def call_prepare_def call_finalize_def Let_def
        split: prod.splits option.splits)
qed

lemma update_named_unformatted:
  assumes "snprintf_ret (update_fmt t col) < 0 \<or>
           512 \<le> snprintf_ret (update_fmt t col) \<and> \<not> fst (alloc w)"
  shows "calls_of (update_named E h c t col rowid_text new_text w) = Returns (calls w)"
    and "eng_of (update_named E h c t col rowid_text new_text w) = Returns (eng w)"
  using assms
  by (auto simp: update_named_def calls_of_def eng_of_def Let_def split: prod.splits
      dest: alloc_world)

lemma apply_update_named:
  assumes "db c = Some h" and "current_tablename c = Some t"
    and "current_colnames c = Some names"
    and "0 < colidx" and "colidx < int (length names)" and "names ! nat colidx = Some col"
  shows "db_apply_update_cell E (Some c) colidx rowid_text new_text w =
           update_named E h c t col rowid_text new_text w"
  using assms by (simp add: db_apply_update_cell_def)

text \<open>
  Claim C5. Two runs of UpdateCell on the same session state and world that differ only
  in the new text and the row identity prepare the same statement texts, and the logs of
  their engine calls are equal once the bound values are blanked. The two values reach the
  engine as bound parameters and in no other way: for a column index inside the array
  whose name is not null and whose statement text is formatted, if the engine prepares the
  statement then the calls made are exactly the prepare of
  \<^verbatim>\<open>UPDATE "table" SET "column" = ? WHERE rowid = ?;\<close>, the binding of the new text
  to parameter 1, the binding of the row identity to parameter 2, one step and the
  finalize, the engine state left is the result of those calls in that order, and the
  code returned is success when the step reports completion and the code of the step
  otherwise; if the engine does not prepare the statement, the only calls are the prepare
  and the finalize of a statement it may have returned, and the code of the prepare is
  returned.
\<close>

theorem update_values_only_bound:
  "map_outcome sql_texts (calls_of (db_apply_update_cell E s colidx rowid1 new1 w)) =
   map_outcome sql_texts (calls_of (db_apply_update_cell E s colidx rowid2 new2 w))
   \<and> map_outcome (map erase_bound) (calls_of (db_apply_update_cell E s colidx rowid1 new1 w)) =
     map_outcome (map erase_bound) (calls_of (db_apply_update_cell E s colidx rowid2 new2 w))
   \<and> (s = Some c \<and> db c = Some h \<and> current_tablename c = Some t \<and>
      current_colnames c = Some names \<and> 0 < colidx \<and> colidx < int (length names) \<and>
      names ! nat colidx = Some col \<and> 0 \<le> snprintf_ret (update_fmt t col) \<and>
      (snprintf_ret (update_fmt t col) < 512 \<or> fst (alloc w))
      \<longrightarrow>
        (fst (sqlite3_prepare_v2 E h (update_fmt t col) (eng w)) = (SQLITE_OK, stmt)
         \<longrightarrow>
           calls_of (db_apply_update_cell E s colidx rowid1 new1 w) =
             Returns (calls w @ [Prepare h (update_fmt t col), Bind_text stmt 1 new1,
                                 Bind_text stmt 2 rowid1, Step stmt, Finalize stmt])
           \<and> eng_of (db_apply_update_cell E s colidx rowid1 new1 w) =
               Returns (sqlite3_finalize E stmt (snd (sqlite3_step E stmt
                 (sqlite3_bind_text E stmt 2 rowid1 (sqlite3_bind_text E stmt 1 new1
                   (snd (sqlite3_prepare_v2 E h (update_fmt t col) (eng w))))))))
           \<and> code_of (db_apply_update_cell E s colidx rowid1 new1 w) =
               Returns (let rc = fst (sqlite3_step E stmt
                 (sqlite3_bind_text E stmt 2 rowid1 (sqlite3_bind_text E stmt 1 new1
                   (snd (sqlite3_prepare_v2 E h (update_fmt t col) (eng w))))))
                in if rc = SQLITE_DONE then SQLITE_OK else rc))
        \<and> (fst (sqlite3_prepare_v2 E h (update_fmt t col) (eng w)) = (rc, stmt) \<and>
           rc \<noteq> SQLITE_OK
           \<longrightarrow>
             calls_of (db_apply_update_cell E s colidx rowid1 new1 w) =
               Returns (calls w @ [Prepare h (update_fmt t col)] @
                        (case stmt of None \<Rightarrow> [] | Some p \<Rightarrow> [Finalize stmt]))
             \<and> code_of (db_apply_update_cell E s colidx rowid1 new1 w) = Returns rc))"
proof -
  let ?a = "calls_of (db_apply_update_cell E s colidx rowid1 new1 w)"
  let ?b = "calls_of (db_apply_update_cell E s colidx rowid2 new2 w)"
  have e: "map_outcome (map erase_bound) ?a = map_outcome (map erase_bound) ?b"
    by (rule apply_update_calls)
  have "map_outcome sql_texts (map_outcome (map erase_bound) ?a) =
        map_outcome sql_texts (map_outcome (map erase_bound) ?b)"
    using e by simp
  then have q: "map_outcome sql_texts ?a = map_outcome sql_texts ?b"
    by (simp add: outcome.map_comp comp_def sql_texts_erase)
  show ?thesis
    using q e
    by (auto simp: apply_update_named update_named_prepared update_named_not_prepared)
qed

theorem update_values_only_bound_witness:
  \<open>calls_of (db_apply_update_cell sim_engine (Some ctx2) 2 (Some ''1'') (Some ''z'') world1) =
     Returns [Open (Some ''/data/app.db''),
              Prepare 1 ''UPDATE "users" SET "b" = ? WHERE rowid = ?;'',
              Bind_text (Some 2) 1 (Some ''z''), Bind_text (Some 2) 2 (Some ''1''),
              Step (Some 2), Finalize (Some 2)]
   \<and> code_of (db_apply_update_cell sim_engine (Some ctx2) 2 (Some ''1'') (Some ''z'') world1) =
       Returns SQLITE_OK
   \<and> calls_of (db_apply_update_cell sim_engine (Some ctx2) 2 (Some ''2'')
        (Some ''z"; DROP TABLE users; --'') world1) =
       Returns [Open (Some ''/data/app.db''),
                Prepare 1 ''UPDATE "users" SET "b" = ? WHERE rowid = ?;'',
                Bind_text (Some 2) 1 (Some ''z"; DROP TABLE users; --''),
                Bind_text (Some 2) 2 (Some ''2''),
                Step (Some 2), Finalize (Some 2)]\<close>
proof -
  have c: "db ctx2 = Some 1" "current_tablename ctx2 = Some ''users''"
    "current_colnames ctx2 = Some [Some ''rowid'', Some ''a'', Some ''b'']"
    by (simp_all add: ctx2_def ctx1_def ctx0_def)
  have n: "0 \<le> snprintf_ret (update_fmt ''users'' ''b'')"
    "snprintf_ret (update_fmt ''users'' ''b'') < 512"
    by (simp_all add: snprintf_ret_def update_fmt_def INT_MAX_def)
  have p: "fst (sqlite3_prepare_v2 sim_engine 1 (update_fmt ''users'' ''b'') (eng world1)) =
      (SQLITE_OK, Some 2)"
    by (simp add: world1_def sim0_def sim_prepare_def sim_compile_def update_fmt_def
        list_tables_sql_def parse_select_def parse_update_def strip_prefix_def after_name_def
        quoted_name_def find_table_def same_name_def schema0_def big_table_sel ascii_lower_def)
  have s: "fst (sqlite3_step sim_engine (Some 2)
      (sqlite3_bind_text sim_engine (Some 2) 2 (Some ''1'')
        (sqlite3_bind_text sim_engine (Some 2) 1 (Some ''z'')
          (snd (sqlite3_prepare_v2 sim_engine 1 (update_fmt ''users'' ''b'') (eng world1)))))) =
      SQLITE_DONE"
    by (simp add: world1_def sim0_def sim_prepare_def sim_compile_def update_fmt_def
        list_tables_sql_def parse_select_def parse_update_def strip_prefix_def after_name_def
        quoted_name_def find_table_def same_name_def schema0_def big_table_sel ascii_lower_def
        sim_bind_text_def sim_step_def)
  from update_values_only_bound
    [of sim_engine "Some ctx2" 2 "Some ''1''" "Some ''z''" world1 _ _ ctx2 1 "''users''"
      "[Some ''rowid'', Some ''a'', Some ''b'']" "''b''" "Some 2"]
    update_values_only_bound
    [of sim_engine "Some ctx2" 2 "Some ''2''" "Some (''z'' @ [CHR 0x22] @ ''; DROP TABLE users; --'')"
      world1 _ _ ctx2 1 "''users''"
      "[Some ''rowid'', Some ''a'', Some ''b'']" "''b''" "Some 2"]
    c n p s
  show ?thesis
    by (simp add: world1_def update_fmt_def)
qed

end
